theory Spec2Isabelle
  imports Complex_Main "HOL-Library.Word" "HOL-Library.Multiset"
begin

section \<open>Python values, strings and exceptions\<close>

text \<open>
  A Python \<open>str\<close> is modelled as a \<open>string\<close> whose characters are the code points
  below 256 (Latin-1); \<open>bytes\<close> is a list of 8-bit words.  A Python \<open>float\<close> is
  idealised as a rational number, with NaN as a separate value where the code can
  produce one.  Dictionaries with string keys are maps from \<open>string\<close>.
\<close>

type_synonym bytes = "8 word list"

datatype pyval = IntV int | StrV string | FloatV rat | NaNV

type_synonym pydict = "string \<rightharpoonup> pyval"

datatype error =
    UnidentifiedImageError
  | OSError
  | ValueError
  | TypeError
  | IndexError
  | KeyError
  | AttributeError
  | ZeroDivisionError
  | OverflowError
  | RuntimeError string
  | AssertionError string
  | Exception string
  | HTTPException nat string

subsection \<open>\<open>str.lower\<close> and the substring test \<open>in\<close>\<close>

text \<open>
  Below code point 256 the letters with a lower-case form are A to Z and the
  Latin-1 capitals other than the multiplication sign; each is 32 below its
  lower-case form.
\<close>

definition is_upper :: "char \<Rightarrow> bool" where
  "is_upper c =
     (let n = (of_char c :: nat)
      in (65 \<le> n \<and> n \<le> 90) \<or> (192 \<le> n \<and> n \<le> 222 \<and> n \<noteq> 215))"

definition lower_char :: "char \<Rightarrow> char" where
  "lower_char c = (if is_upper c then char_of (of_char c + (32::nat)) else c)"

definition lower :: "string \<Rightarrow> string" where
  "lower s = map lower_char s"

definition startswith :: "string \<Rightarrow> string \<Rightarrow> bool" where
  "startswith s p = (take (length p) s = p)"

text \<open>\<open>contains s sub\<close> is Python's \<open>sub in s\<close> on strings.\<close>

fun contains :: "string \<Rightarrow> string \<Rightarrow> bool" where
  "contains [] sub = (sub = [])"
| "contains (c # cs) sub = (startswith (c # cs) sub \<or> contains cs sub)"

section \<open>\<open>backend/app/llm_advisor.py\<close>\<close>

subsection \<open>\<open>LLMAdvisor._rule_based_suggestions\<close>\<close>

definition portrait_words :: "string list" where
  "portrait_words = [''portrait'', ''person'', ''people'', ''face'']"

definition landscape_words :: "string list" where
  "landscape_words = [''landscape'', ''scenery'', ''mountain'', ''nature'']"

definition action_words :: "string list" where
  "action_words = [''action'', ''sport'', ''fast'', ''moving'', ''running'']"

definition low_light_words :: "string list" where
  "low_light_words = [''dark'', ''night'', ''low light'', ''indoor'']"

definition portrait_profile :: pydict where
  "portrait_profile =
     [''iso'' \<mapsto> IntV 400,
      ''aperture'' \<mapsto> StrV ''f/2.8'',
      ''shutter_speed'' \<mapsto> StrV ''1/125s'',
      ''explanation'' \<mapsto> StrV ''Portrait settings: Wide aperture (f/2.8) for shallow depth of field, moderate ISO and shutter speed'',
      ''source'' \<mapsto> StrV ''rule-based'']"

definition landscape_profile :: pydict where
  "landscape_profile =
     [''iso'' \<mapsto> IntV 100,
      ''aperture'' \<mapsto> StrV ''f/11'',
      ''shutter_speed'' \<mapsto> StrV ''1/60s'',
      ''explanation'' \<mapsto> StrV ''Landscape settings: Narrow aperture (f/11) for deep depth of field, low ISO for quality'',
      ''source'' \<mapsto> StrV ''rule-based'']"

definition action_profile :: pydict where
  "action_profile =
     [''iso'' \<mapsto> IntV 800,
      ''aperture'' \<mapsto> StrV ''f/4'',
      ''shutter_speed'' \<mapsto> StrV ''1/1000s'',
      ''explanation'' \<mapsto> StrV ''Action settings: Fast shutter (1/1000s) to freeze motion, moderate aperture and higher ISO'',
      ''source'' \<mapsto> StrV ''rule-based'']"

definition low_light_profile :: pydict where
  "low_light_profile =
     [''iso'' \<mapsto> IntV 1600,
      ''aperture'' \<mapsto> StrV ''f/2.8'',
      ''shutter_speed'' \<mapsto> StrV ''1/60s'',
      ''explanation'' \<mapsto> StrV ''Low light settings: High ISO (1600), wide aperture (f/2.8) to gather more light'',
      ''source'' \<mapsto> StrV ''rule-based'']"

definition default_profile :: pydict where
  "default_profile =
     [''iso'' \<mapsto> IntV 400,
      ''aperture'' \<mapsto> StrV ''f/5.6'',
      ''shutter_speed'' \<mapsto> StrV ''1/125s'',
      ''explanation'' \<mapsto> StrV ''General purpose settings: Balanced settings suitable for most situations'',
      ''source'' \<mapsto> StrV ''rule-based'']"

text \<open>\<open>keyword_hit s ws\<close> is \<open>any(word in s for word in ws)\<close>.\<close>

definition keyword_hit :: "string \<Rightarrow> string list \<Rightarrow> bool" where
  "keyword_hit s ws = list_ex (\<lambda>word. contains s word) ws"

text \<open>
  \<open>current_settings\<close> is a dictionary in insertion order, each value given by the
  text \<open>str(value)\<close> produces.  \<open>_rule_based_suggestions\<close> accepts it and never
  reads it.
\<close>

type_synonym current_settings = "(string \<times> string) list"

definition rule_based_suggestions :: "string \<Rightarrow> current_settings option \<Rightarrow> pydict" where
  "rule_based_suggestions prompt current_settings =
     (let prompt_lower = lower prompt
      in if keyword_hit prompt_lower portrait_words then portrait_profile
         else if keyword_hit prompt_lower landscape_words then landscape_profile
         else if keyword_hit prompt_lower action_words then action_profile
         else if keyword_hit prompt_lower low_light_words then low_light_profile
         else default_profile)"

subsection \<open>\<open>LLMAdvisor._parse_llm_response\<close>\<close>

text \<open>
  \<open>str.split()\<close> cuts at runs of whitespace and yields no empty word.
  \<open>str.isdigit()\<close> also accepts the superscript digits, on which \<open>int\<close> raises
  ValueError; \<open>py_int\<close> is \<open>int(word)\<close> for a word that passed \<open>isdigit\<close>.  In the
  regular expressions \<open>\d\<close> matches the decimal digits 0 to 9 only, and
  \<open>re.search\<close> returns the leftmost match, each repetition taking as much as it
  can.
\<close>

definition is_space :: "char \<Rightarrow> bool" where
  "is_space c =
     (let n = (of_char c :: nat)
      in (9 \<le> n \<and> n \<le> 13) \<or> (28 \<le> n \<and> n \<le> 32) \<or> n = 133 \<or> n = 160)"

fun split_acc :: "string \<Rightarrow> string \<Rightarrow> string list" where
  "split_acc w [] = (if w = [] then [] else [w])"
| "split_acc w (c # cs) =
     (if is_space c then (if w = [] then split_acc [] cs else w # split_acc [] cs)
      else split_acc (w @ [c]) cs)"

definition split :: "string \<Rightarrow> string list" where
  "split s = split_acc [] s"

definition is_decimal :: "char \<Rightarrow> bool" where
  "is_decimal c = (let n = (of_char c :: nat) in 48 \<le> n \<and> n \<le> 57)"

definition is_digit_char :: "char \<Rightarrow> bool" where
  "is_digit_char c = (let n = (of_char c :: nat) in is_decimal c \<or> n = 178 \<or> n = 179 \<or> n = 185)"

definition isdigit :: "string \<Rightarrow> bool" where
  "isdigit s = (s \<noteq> [] \<and> list_all is_digit_char s)"

definition py_int :: "string \<Rightarrow> error + int" where
  "py_int s =
     (if s \<noteq> [] \<and> list_all is_decimal s
      then Inr (foldl (\<lambda>a c. 10 * a + (int (of_char c) - 48)) 0 s)
      else Inl ValueError)"

definition iso_values :: "int list" where
  "iso_values = [100, 200, 400, 800, 1600, 3200, 6400]"

fun find_iso :: "string list \<Rightarrow> error + int option" where
  "find_iso [] = Inr None"
| "find_iso (word # ws) =
     (if isdigit word
      then (case py_int word of
              Inl e \<Rightarrow> Inl e
            | Inr n \<Rightarrow> if n \<in> set iso_values then Inr (Some n) else find_iso ws)
      else find_iso ws)"

definition match_aperture :: "string \<Rightarrow> string option" where
  "match_aperture s =
     (if startswith s ''f/''
      then (let r = drop 2 s; d1 = takeWhile is_decimal r; r1 = dropWhile is_decimal r
            in if d1 = [] then None
               else (case r1 of
                       [] \<Rightarrow> Some d1
                     | c # r2 \<Rightarrow> if c = CHR ''.'' then Some (d1 @ ''.'' @ takeWhile is_decimal r2)
                                 else Some d1))
      else None)"

fun search_aperture :: "string \<Rightarrow> string option" where
  "search_aperture [] = None"
| "search_aperture (c # cs) =
     (case match_aperture (c # cs) of Some g \<Rightarrow> Some g | None \<Rightarrow> search_aperture cs)"

definition match_shutter :: "string \<Rightarrow> string option" where
  "match_shutter s =
     (if startswith s ''1/''
      then (let d1 = takeWhile is_decimal (drop 2 s) in if d1 = [] then None else Some d1)
      else None)"

fun search_shutter :: "string \<Rightarrow> string option" where
  "search_shutter [] = None"
| "search_shutter (c # cs) =
     (case match_shutter (c # cs) of Some g \<Rightarrow> Some g | None \<Rightarrow> search_shutter cs)"

definition parse_llm_response :: "string \<Rightarrow> error + pydict" where
  "parse_llm_response text =
     (let text_lower = lower text
      in case (if contains text_lower ''iso'' then find_iso (split text) else Inr None) of
           Inl e \<Rightarrow> Inl e
         | Inr found \<Rightarrow>
             (let settings = (case found of None \<Rightarrow> Map.empty | Some n \<Rightarrow> [''iso'' \<mapsto> IntV n]);
                  settings =
                    (if contains text_lower ''f/'' \<or> contains text_lower ''aperture''
                     then (case search_aperture text_lower of
                             Some g \<Rightarrow> settings(''aperture'' \<mapsto> StrV (''f/'' @ g))
                           | None \<Rightarrow> settings)
                     else settings);
                  settings =
                    (if contains text_lower ''shutter'' \<or> contains text ''1/''
                     then (case search_shutter text of
                             Some g \<Rightarrow> settings(''shutter_speed'' \<mapsto> StrV (''1/'' @ g @ ''s''))
                           | None \<Rightarrow> settings)
                     else settings)
              in Inr settings))"


subsection \<open>\<open>LLMAdvisor.suggest\<close>\<close>

text \<open>
  The OpenAI client is a parameter: a function from the chat-completion request to
  either the exception the call raises or the response.  Of a response only
  \<open>choices[i].message.content\<close> is read; the SDK types it \<open>Optional[str]\<close>.
\<close>

record chat_message =
  role :: string
  content :: string

record chat_request =
  model :: string
  messages :: "chat_message list"
  temperature :: rat
  max_tokens :: nat

record chat_choice =
  message_content :: "string option"

record chat_response =
  choices :: "chat_choice list"

type_synonym client = "chat_request \<Rightarrow> error + chat_response"

fun join :: "string \<Rightarrow> string list \<Rightarrow> string" where
  "join sep [] = []"
| "join sep [x] = x"
| "join sep (x # y # ys) = x @ sep @ join sep (y # ys)"

definition format_settings :: "current_settings \<Rightarrow> string" where
  "format_settings settings =
     join '', '' (map (\<lambda>(key, value). key @ '': '' @ value) settings)"

definition system_message :: string where
  "system_message =
     ''You are an expert photographer and camera settings advisor. \<newline>'' @
     ''Your job is to suggest optimal camera settings based on user requests. \<newline>'' @
     ''Provide specific values for ISO, aperture (f-stop), shutter speed, and any other relevant parameters.\<newline>'' @
     ''Always explain your reasoning briefly.''"

definition build_request :: "string \<Rightarrow> current_settings option \<Rightarrow> chat_request" where
  "build_request prompt current_settings =
     (let context =
            (case current_settings of
               None \<Rightarrow> ''''
             | Some cs \<Rightarrow>
                 if cs \<noteq> [] then ''\<newline>\<newline>Current settings: '' @ format_settings cs else '''');
          user_message =
            ''User request: '' @ prompt @ context @ ''\<newline>\<newline>Suggest optimal camera settings.''
      in \<lparr>model = ''gpt-3.5-turbo'',
          messages = [\<lparr>role = ''system'', content = system_message\<rparr>,
                      \<lparr>role = ''user'', content = user_message\<rparr>],
          temperature = 7 / 10,
          max_tokens = 500\<rparr>)"

text \<open>
  The body of the \<open>try\<close> block.  \<open>response.choices[0]\<close> raises IndexError on an empty
  list; a \<open>None\<close> content raises AttributeError at \<open>text.lower()\<close> inside
  \<open>_parse_llm_response\<close>.
\<close>

definition llm_path :: "client \<Rightarrow> string \<Rightarrow> current_settings option \<Rightarrow> error + pydict" where
  "llm_path client prompt current_settings =
     (case client (build_request prompt current_settings) of
        Inl e \<Rightarrow> Inl e
      | Inr response \<Rightarrow>
          (case choices response of
             [] \<Rightarrow> Inl IndexError
           | choice # _ \<Rightarrow>
               (case message_content choice of
                  None \<Rightarrow> Inl AttributeError
                | Some suggestion_text \<Rightarrow>
                    (case parse_llm_response suggestion_text of
                       Inl e \<Rightarrow> Inl e
                     | Inr suggestions \<Rightarrow>
                         Inr (suggestions(''explanation'' \<mapsto> StrV suggestion_text,
                                          ''source'' \<mapsto> StrV ''llm''))))))"

definition suggest ::
  "client option \<Rightarrow> string \<Rightarrow> current_settings option \<Rightarrow> error + pydict" where
  "suggest client prompt current_settings =
     (case client of
        None \<Rightarrow> Inr (rule_based_suggestions prompt current_settings)
      | Some c \<Rightarrow>
          (case llm_path c prompt current_settings of
             Inr suggestions \<Rightarrow> Inr suggestions
           | Inl e \<Rightarrow> Inr (rule_based_suggestions prompt current_settings)))"

text \<open>A client whose call returns normally with one choice that carries no text.\<close>

definition silent_client :: client where
  "silent_client request = Inr \<lparr>choices = [\<lparr>message_content = None\<rparr>]\<rparr>"

text \<open>A client whose call returns normally with one choice carrying a fixed text.\<close>

definition fixed_client :: client where
  "fixed_client request =
     Inr \<lparr>choices = [\<lparr>message_content =
            Some ''Use ISO 800 with aperture F/2.8 and shutter 1/250 s''\<rparr>]\<rparr>"

text \<open>A client whose call raises.\<close>

definition failing_client :: client where
  "failing_client request = Inl (Exception ''Connection error.'')"

section \<open>The libraries the backend calls\<close>

text \<open>
  Pillow, NumPy and the Python runtime are parameters of the model.  An opened image
  is the record of the attributes the code reads (\<open>img_exif\<close> is what
  \<open>getexif().items()\<close> yields, \<open>img_fp\<close> the file the raster is loaded from when
  first needed); a NumPy array is its shape and its elements in row-major order,
  as many as the shape says.  Every library call that can raise returns
  \<open>error + _\<close>.  \<open>py_str\<close> is \<open>str(value)\<close>, \<open>exc_str\<close> is \<open>str(e)\<close>, \<open>bytes_decode\<close> is
  \<open>value.decode()\<close> (\<open>None\<close> when it raises), \<open>str_to_float\<close> and \<open>bytes_to_float\<close> are
  \<open>float\<close> on text and on bytes (\<open>None\<close> when it raises).
\<close>

datatype tag = TagName string | TagId nat

datatype exif_value =
    Num rat
  | Str string
  | Bytes bytes
  | Tuple "exif_value list"
  | Other

record image =
  img_format :: "string option"
  img_mode :: string
  img_width :: nat
  img_height :: nat
  img_exif :: "(nat \<times> exif_value) list"
  img_fp :: bytes

record 'a ndarray =
  shape :: "nat list"
  elems :: "'a list"

record library =
  Image_open :: "bytes \<Rightarrow> error + image"
  Image_open_path :: "string \<Rightarrow> error + image"
  Image_convert :: "image \<Rightarrow> string \<Rightarrow> error + image"
  Image_resize :: "image \<Rightarrow> nat \<times> nat \<Rightarrow> error + image"
  np_array :: "image \<Rightarrow> error + 8 word ndarray"
  TAGS :: "nat \<rightharpoonup> string"
  bytes_decode :: "bytes \<Rightarrow> string option"
  py_str :: "exif_value \<Rightarrow> string"
  str_to_float :: "string \<Rightarrow> rat option"
  bytes_to_float :: "bytes \<Rightarrow> rat option"
  exc_str :: "error \<Rightarrow> string"

subsection \<open>Numbers as text\<close>

fun str_nat :: "nat \<Rightarrow> string" where
  "str_nat n =
     (if n < 10 then [char_of (48 + n)]
      else str_nat (n div 10) @ [char_of (48 + n mod 10)])"

definition str_int :: "int \<Rightarrow> string" where
  "str_int i = (if i < 0 then ''-'' @ str_nat (nat (- i)) else str_nat (nat i))"

text \<open>\<open>int(x)\<close> on a float truncates towards zero.\<close>

definition py_trunc :: "rat \<Rightarrow> int" where
  "py_trunc x = (if 0 \<le> x then \<lfloor>x\<rfloor> else \<lceil>x\<rceil>)"

text \<open>\<open>f"{x:.1f}"\<close>: one decimal place, ties to the even digit.\<close>

definition round_half_even :: "rat \<Rightarrow> int" where
  "round_half_even x =
     (let f = \<lfloor>x\<rfloor>; r = x - of_int f
      in if r < 1 / 2 then f
         else if 1 / 2 < r then f + 1
         else if even f then f else f + 1)"

definition format_1f :: "rat \<Rightarrow> string" where
  "format_1f x =
     (let t = nat (round_half_even (\<bar>x\<bar> * 10))
      in (if x < 0 then ''-'' else '''') @ str_nat (t div 10) @ ''.'' @ str_nat (t mod 10))"

section \<open>\<open>backend/app/settings_predictor.py\<close>\<close>

text \<open>
  An ONNX inference session: the names of its inputs and its \<open>run\<close> method, which
  maps the fed input to the list of output arrays (each a list of rows).
\<close>

record session =
  get_inputs :: "string list"
  run :: "string \<Rightarrow> rat ndarray \<Rightarrow> error + rat list list list"

subsection \<open>\<open>SettingsPredictor.preprocess_image\<close>\<close>

text \<open>
  \<open>np.transpose(a, (2, 0, 1))\<close> raises ValueError unless \<open>a\<close> has three axes.
\<close>

definition transpose_201 :: "'a ndarray \<Rightarrow> error + 'a ndarray" where
  "transpose_201 a =
     (case shape a of
        [h, w, c] \<Rightarrow>
          Inr \<lparr>shape = [c, h, w],
               elems = concat (map (\<lambda>k. concat (map (\<lambda>y. map (\<lambda>x. elems a ! ((y * w + x) * c + k))
                                [0..<w]) [0..<h])) [0..<c])\<rparr>
      | _ \<Rightarrow> Inl ValueError)"

definition expand_dims_0 :: "'a ndarray \<Rightarrow> 'a ndarray" where
  "expand_dims_0 a = a\<lparr>shape := 1 # shape a\<rparr>"

definition preprocess_image :: "library \<Rightarrow> bytes \<Rightarrow> error + rat ndarray" where
  "preprocess_image lib image_bytes =
     (case Image_open lib image_bytes of
        Inl e \<Rightarrow> Inl e
      | Inr img \<Rightarrow>
          (case (if img_mode img \<noteq> ''RGB'' then Image_convert lib img ''RGB''
                 else Inr img) of
             Inl e \<Rightarrow> Inl e
           | Inr img \<Rightarrow>
               (case Image_resize lib img (224, 224) of
                  Inl e \<Rightarrow> Inl e
                | Inr img \<Rightarrow>
                    (case np_array lib img of
                       Inl e \<Rightarrow> Inl e
                     | Inr a \<Rightarrow>
                         (let img_array =
                                \<lparr>shape = shape a,
                                 elems = map (\<lambda>v. rat_of_nat (unat v) / 255) (elems a)\<rparr>
                          in case transpose_201 img_array of
                               Inl e \<Rightarrow> Inl e
                             | Inr img_array \<Rightarrow> Inr (expand_dims_0 img_array))))))"

subsection \<open>\<open>SettingsPredictor._rule_based_prediction\<close>\<close>

text \<open>
  \<open>np.mean\<close> of a \<open>uint8\<close> array: the exact sum of the elements divided by their
  number; NaN (here \<open>None\<close>) for an array without elements.  Every comparison with
  NaN is false.
\<close>

definition np_mean :: "8 word ndarray \<Rightarrow> rat option" where
  "np_mean a =
     (if elems a = [] then None
      else Some (rat_of_nat (sum_list (map unat (elems a))) / rat_of_nat (length (elems a))))"

definition float_lt :: "rat option \<Rightarrow> rat \<Rightarrow> bool" where
  "float_lt x c = (case x of None \<Rightarrow> False | Some v \<Rightarrow> v < c)"

definition float_val :: "rat option \<Rightarrow> pyval" where
  "float_val x = (case x of None \<Rightarrow> NaNV | Some v \<Rightarrow> FloatV v)"

definition rule_based_prediction :: "library \<Rightarrow> bytes \<Rightarrow> error + pydict" where
  "rule_based_prediction lib image_bytes =
     (case Image_open lib image_bytes of
        Inl e \<Rightarrow> Inl e
      | Inr img \<Rightarrow>
          (case (if img_mode img \<noteq> ''L'' then Image_convert lib img ''L''
                 else Inr img) of
             Inl e \<Rightarrow> Inl e
           | Inr gray_image \<Rightarrow>
               (case np_array lib gray_image of
                  Inl e \<Rightarrow> Inl e
                | Inr img_array \<Rightarrow>
                    (let avg_brightness = np_mean img_array;
                         (iso_v, aperture, shutter) =
                            (if float_lt avg_brightness 85 then (1600, ''f/2.8'', ''1/60s'')
                             else if float_lt avg_brightness 170 then (400, ''f/5.6'', ''1/125s'')
                             else (100, ''f/8.0'', ''1/500s''))
                     in Inr [''iso'' \<mapsto> IntV iso_v,
                             ''aperture'' \<mapsto> StrV aperture,
                             ''shutter_speed'' \<mapsto> StrV shutter,
                             ''avg_brightness'' \<mapsto> float_val avg_brightness,
                             ''note'' \<mapsto> StrV ''Rule-based prediction (ML model not available)'']))))"

subsection \<open>\<open>SettingsPredictor.predict\<close>\<close>

text \<open>
  Building the \<open>predictions\<close> dictionary from \<open>outputs[0][0]\<close>.  An index out of
  range raises IndexError.  With NumPy scalars \<open>1 / 0.0\<close> is infinite and \<open>int\<close> of
  it raises OverflowError.
\<close>

definition parse_outputs :: "rat list list list \<Rightarrow> error + pydict" where
  "parse_outputs outputs =
     (case outputs of
        [] \<Rightarrow> Inl IndexError
      | out0 # _ \<Rightarrow>
          (case out0 of
             [] \<Rightarrow> Inl IndexError
           | row # _ \<Rightarrow>
               if length row < 3 then Inl IndexError
               else if row ! 2 * 8000 = 0 then Inl OverflowError
               else Inr [''iso'' \<mapsto> IntV (py_trunc (row ! 0 * 6400)),
                         ''aperture'' \<mapsto> StrV (''f/'' @ format_1f (row ! 1 * 22)),
                         ''shutter_speed'' \<mapsto>
                            StrV (''1/'' @ str_int (py_trunc (1 / (row ! 2 * 8000))) @ ''s''),
                         ''confidence'' \<mapsto>
                            FloatV (if 3 < length row then row ! 3 else 4 / 5)]))"

text \<open>The body of the \<open>try\<close> block of \<open>predict\<close>.\<close>

definition onnx_path :: "library \<Rightarrow> session \<Rightarrow> bytes \<Rightarrow> error + pydict" where
  "onnx_path lib sess image_bytes =
     (case preprocess_image lib image_bytes of
        Inl e \<Rightarrow> Inl e
      | Inr input_data \<Rightarrow>
          (case get_inputs sess of
             [] \<Rightarrow> Inl IndexError
           | input_name # _ \<Rightarrow>
               (case run sess input_name input_data of
                  Inl e \<Rightarrow> Inl e
                | Inr outputs \<Rightarrow> parse_outputs outputs)))"

definition predict :: "library \<Rightarrow> session option \<Rightarrow> bytes \<Rightarrow> error + pydict" where
  "predict lib sess image_bytes =
     (case sess of
        None \<Rightarrow> rule_based_prediction lib image_bytes
      | Some s \<Rightarrow>
          (case onnx_path lib s image_bytes of
             Inr predictions \<Rightarrow> Inr predictions
           | Inl e \<Rightarrow> rule_based_prediction lib image_bytes))"

text \<open>\<open>predict_settings\<close> calls \<open>predict\<close> on the module's predictor instance.\<close>

definition predict_settings :: "library \<Rightarrow> session option \<Rightarrow> bytes \<Rightarrow> error + pydict" where
  "predict_settings lib sess image_bytes = predict lib sess image_bytes"

section \<open>\<open>backend/app/metadata_extractor.py\<close> and the \<open>/metadata\<close> endpoint\<close>









definition then_do :: "error + 'a \<Rightarrow> ('a \<Rightarrow> error + 'b) \<Rightarrow> error + 'b" where
  "then_do r f = (case r of Inl e \<Rightarrow> Inl e | Inr x \<Rightarrow> f x)"





section \<open>\<open>ml_training/scripts/preprocess.py\<close>\<close>

subsection \<open>\<open>extract_exif_data\<close>\<close>

text \<open>
  One round of the loop over \<open>exif_data.items()\<close>; a bytes value that does not
  decode is skipped (\<open>continue\<close>).
\<close>

definition exif_dict_step ::
  "library \<Rightarrow> nat \<times> exif_value \<Rightarrow> (tag \<rightharpoonup> exif_value) \<Rightarrow> (tag \<rightharpoonup> exif_value)" where
  "exif_dict_step lib item exif_dict =
     (let tag_id = fst item; v = snd item;
          tag_key = (case TAGS lib tag_id of Some name \<Rightarrow> TagName name | None \<Rightarrow> TagId tag_id)
      in case v of
           Bytes b \<Rightarrow>
             (case bytes_decode lib b of
                Some s \<Rightarrow> exif_dict(tag_key \<mapsto> Str s)
              | None \<Rightarrow> exif_dict)
         | _ \<Rightarrow> exif_dict(tag_key \<mapsto> v))"

definition extract_exif_data :: "library \<Rightarrow> string \<Rightarrow> (tag \<rightharpoonup> exif_value) option" where
  "extract_exif_data lib image_path =
     (case Image_open_path lib image_path of
        Inl e \<Rightarrow> None
      | Inr img \<Rightarrow>
          if img_exif img = [] then None
          else Some (fold (exif_dict_step lib) (img_exif img) Map.empty))"

subsection \<open>\<open>parse_camera_settings\<close>\<close>

text \<open>\<open>float(v)\<close>: a number converts, text is parsed, a tuple or another object raises.\<close>

definition py_float :: "library \<Rightarrow> exif_value \<Rightarrow> error + rat" where
  "py_float lib v =
     (case v of
        Num x \<Rightarrow> Inr x
      | Str s \<Rightarrow> (case str_to_float lib s of Some x \<Rightarrow> Inr x | None \<Rightarrow> Inl ValueError)
      | Bytes b \<Rightarrow> (case bytes_to_float lib b of Some x \<Rightarrow> Inr x | None \<Rightarrow> Inl ValueError)
      | Tuple t \<Rightarrow> Inl TypeError
      | Other \<Rightarrow> Inl TypeError)"

text \<open>
  \<open>float(v[0]) / float(v[1])\<close> if \<open>v\<close> is a tuple, \<open>float(v)\<close> otherwise.
\<close>

definition ratio_or_float :: "library \<Rightarrow> exif_value \<Rightarrow> error + rat" where
  "ratio_or_float lib v =
     (case v of
        Tuple t \<Rightarrow>
          (case t of
             [] \<Rightarrow> Inl IndexError
           | a # rest \<Rightarrow>
               (case py_float lib a of
                  Inl e \<Rightarrow> Inl e
                | Inr x \<Rightarrow>
                    (case rest of
                       [] \<Rightarrow> Inl IndexError
                     | b # _ \<Rightarrow>
                         (case py_float lib b of
                            Inl e \<Rightarrow> Inl e
                          | Inr y \<Rightarrow> if y = 0 then Inl ZeroDivisionError else Inr (x / y)))))
      | _ \<Rightarrow> py_float lib v)"

text \<open>\<open>if key in exif_data: settings[name] = conv(exif_data[key])\<close>.\<close>

definition parse_field ::
  "(tag \<rightharpoonup> exif_value) \<Rightarrow> string \<Rightarrow> string \<Rightarrow> (exif_value \<Rightarrow> error + rat)
     \<Rightarrow> (string \<rightharpoonup> rat) \<Rightarrow> error + (string \<rightharpoonup> rat)" where
  "parse_field exif_data key name conv settings =
     (case exif_data (TagName key) of
        None \<Rightarrow> Inr settings
      | Some v \<Rightarrow> (case conv v of Inl e \<Rightarrow> Inl e | Inr x \<Rightarrow> Inr (settings(name \<mapsto> x))))"

text \<open>The four conversions inside the \<open>try\<close> block, in source order.\<close>

definition parse_fields :: "library \<Rightarrow> (tag \<rightharpoonup> exif_value) \<Rightarrow> error + (string \<rightharpoonup> rat)" where
  "parse_fields lib exif_data =
     then_do (parse_field exif_data ''ISOSpeedRatings'' ''iso'' (py_float lib) Map.empty)
       (\<lambda>settings.
     then_do (parse_field exif_data ''FNumber'' ''aperture'' (ratio_or_float lib) settings)
       (\<lambda>settings.
     then_do (parse_field exif_data ''ExposureTime'' ''shutter_speed'' (ratio_or_float lib) settings)
       (\<lambda>settings.
     parse_field exif_data ''FocalLength'' ''focal_length'' (ratio_or_float lib) settings)))"

definition parse_camera_settings ::
  "library \<Rightarrow> (tag \<rightharpoonup> exif_value) \<Rightarrow> (string \<rightharpoonup> rat) option" where
  "parse_camera_settings lib exif_data =
     (case parse_fields lib exif_data of
        Inl e \<Rightarrow> None
      | Inr settings \<Rightarrow>
          if list_all (\<lambda>k. settings k \<noteq> None) [''iso'', ''aperture'', ''shutter_speed'']
          then Some settings
          else None)"

subsection \<open>DataFrames\<close>

text \<open>
  A DataFrame is its column names and its rows; a row gives the cell of every
  column (what it gives elsewhere is immaterial).  NaN is the missing number.
\<close>

datatype cell = NumC rat | NaNC | TextC string

type_synonym row = "string \<Rightarrow> cell"

record frame =
  columns :: "string list"
  rows :: "row list"

subsection \<open>\<open>create_dataset_from_images\<close>\<close>

text \<open>
  The loop over the image files, collecting \<open>data\<close>.  \<open>settings["iso"]\<close> on a
  dictionary without that key raises KeyError.
\<close>

fun collect_rows :: "library \<Rightarrow> string list \<Rightarrow> error + row list" where
  "collect_rows lib [] = Inr []"
| "collect_rows lib (img_path # rest) =
     (case extract_exif_data lib img_path of
        None \<Rightarrow> collect_rows lib rest
      | Some exif_data \<Rightarrow>
          if exif_data = Map.empty then collect_rows lib rest
          else
            (case parse_camera_settings lib exif_data of
               None \<Rightarrow> collect_rows lib rest
             | Some settings \<Rightarrow>
                 if settings = Map.empty then collect_rows lib rest
                 else
                   (case (settings ''iso'', settings ''aperture'', settings ''shutter_speed'') of
                      (Some i, Some a, Some s) \<Rightarrow>
                        (case collect_rows lib rest of
                           Inl e \<Rightarrow> Inl e
                         | Inr data \<Rightarrow>
                             Inr (((\<lambda>c. NaNC)
                                    (''image_path'' := TextC img_path,
                                     ''iso'' := NumC i,
                                     ''aperture'' := NumC a,
                                     ''shutter_speed'' := NumC s,
                                     ''focal_length'' :=
                                        NumC (case settings ''focal_length'' of
                                                Some f \<Rightarrow> f | None \<Rightarrow> 0))) # data))
                    | _ \<Rightarrow> Inl KeyError)))"

text \<open>
  \<open>image_files\<close> is the list the four \<open>glob\<close> calls produce.  The CSV file written
  on the way is not modelled; the returned DataFrame is.
\<close>

definition create_dataset_from_images :: "library \<Rightarrow> string list \<Rightarrow> error + frame" where
  "create_dataset_from_images lib image_files =
     (case collect_rows lib image_files of
        Inl e \<Rightarrow> Inl e
      | Inr data \<Rightarrow>
          Inr \<lparr>columns = (if data = [] then []
                          else [''image_path'', ''iso'', ''aperture'', ''shutter_speed'',
                                ''focal_length'']),
               rows = data\<rparr>)"

subsection \<open>\<open>normalize_settings\<close>\<close>

text \<open>
  DataFrames are objects: a store holds them, and a reference is an index into the
  store.  \<open>df.copy()\<close> allocates a new DataFrame; a column assignment updates the
  DataFrame it is applied to, in place.
\<close>

type_synonym store = "frame list"

text \<open>\<open>df[column]\<close>, read.\<close>

definition get_column :: "frame \<Rightarrow> string \<Rightarrow> cell list" where
  "get_column df column = map (\<lambda>r. r column) (rows df)"

text \<open>
  The numbers of a column, NaN as \<open>None\<close>.  On a column with text in it
  \<open>min\<close>, \<open>float\<close> or the subtraction raises (TypeError or ValueError; the model
  does not tell them apart).
\<close>

definition is_text :: "cell \<Rightarrow> bool" where
  "is_text c = (case c of TextC s \<Rightarrow> True | _ \<Rightarrow> False)"

definition cell_float :: "cell \<Rightarrow> rat option" where
  "cell_float c = (case c of NumC x \<Rightarrow> Some x | _ \<Rightarrow> None)"

definition numeric_column :: "frame \<Rightarrow> string \<Rightarrow> error + rat option list" where
  "numeric_column df column =
     (let cells = get_column df column
      in if list_ex is_text cells then Inl TypeError
         else Inr (map cell_float cells))"

text \<open>\<open>Series.min()\<close> and \<open>Series.max()\<close> skip NaN and give NaN when nothing is left.\<close>

definition series_min :: "rat option list \<Rightarrow> rat option" where
  "series_min vals =
     (let xs = List.map_filter id vals in if xs = [] then None else Some (Min (set xs)))"

definition series_max :: "rat option list \<Rightarrow> rat option" where
  "series_max vals =
     (let xs = List.map_filter id vals in if xs = [] then None else Some (Max (set xs)))"

text \<open>Float arithmetic with NaN: any operation on NaN gives NaN.\<close>

definition fsub :: "rat option \<Rightarrow> rat option \<Rightarrow> rat option" where
  "fsub a b = (case (a, b) of (Some x, Some y) \<Rightarrow> Some (x - y) | _ \<Rightarrow> None)"

definition fadd :: "rat option \<Rightarrow> rat option \<Rightarrow> rat option" where
  "fadd a b = (case (a, b) of (Some x, Some y) \<Rightarrow> Some (x + y) | _ \<Rightarrow> None)"

definition fdiv :: "rat option \<Rightarrow> rat option \<Rightarrow> rat option" where
  "fdiv a b = (case (a, b) of (Some x, Some y) \<Rightarrow> if y = 0 then None else Some (x / y) | _ \<Rightarrow> None)"

text \<open>\<open>(v - min_val) / (max_val - min_val + 1e-8)\<close>.\<close>

definition rescale :: "rat option \<Rightarrow> rat option \<Rightarrow> rat option \<Rightarrow> rat option" where
  "rescale min_val max_val v =
     fdiv (fsub v min_val) (fadd (fsub max_val min_val) (Some (1 / 100000000)))"

definition float_cell :: "rat option \<Rightarrow> cell" where
  "float_cell v = (case v of Some x \<Rightarrow> NumC x | None \<Rightarrow> NaNC)"

text \<open>\<open>df[column] = values\<close>.\<close>

definition set_column :: "frame \<Rightarrow> string \<Rightarrow> cell list \<Rightarrow> frame" where
  "set_column df column vals =
     \<lparr>columns = (if column \<in> set (columns df) then columns df else columns df @ [column]),
      rows = map (\<lambda>(r, v). r(column := v)) (zip (rows df) vals)\<rparr>"

type_synonym norm_params = "string \<rightharpoonup> rat option \<times> rat option"

text \<open>
  The \<open>for\<close> loop: \<open>df\<close> and \<open>df_normalized\<close> are references into the store \<open>st\<close>.
  The store is returned also when the loop raises.
\<close>

fun normalize_loop ::
  "string list \<Rightarrow> nat \<Rightarrow> nat \<Rightarrow> store \<Rightarrow> norm_params \<Rightarrow> store \<times> (error + norm_params)" where
  "normalize_loop [] df df_normalized st norm_params = (st, Inr norm_params)"
| "normalize_loop (column # cols) df df_normalized st norm_params =
     (if column \<in> set (columns (st ! df))
      then (case numeric_column (st ! df) column of
              Inl e \<Rightarrow> (st, Inl e)
            | Inr vals \<Rightarrow>
                (let min_val = series_min vals;
                     max_val = series_max vals;
                     norm_params = norm_params(column \<mapsto> (min_val, max_val));
                     scaled = map (rescale min_val max_val) vals;
                     st = st[df_normalized :=
                               set_column (st ! df_normalized) column (map float_cell scaled)]
                 in normalize_loop cols df df_normalized st norm_params))
      else normalize_loop cols df df_normalized st norm_params)"

definition settings_columns :: "string list" where
  "settings_columns = [''iso'', ''aperture'', ''shutter_speed'', ''focal_length'']"

definition normalize_settings :: "store \<Rightarrow> nat \<Rightarrow> store \<times> (error + nat \<times> norm_params)" where
  "normalize_settings st df =
     (let df_normalized = length st;
          st = st @ [st ! df]
      in case normalize_loop settings_columns df df_normalized st Map.empty of
           (st, Inl e) \<Rightarrow> (st, Inl e)
         | (st, Inr norm_params) \<Rightarrow> (st, Inr (df_normalized, norm_params)))"

subsection \<open>\<open>split_dataset\<close>\<close>




section \<open>A small library and session for concrete runs\<close>

text \<open>
  \<open>toy_library\<close> opens any non-empty byte string as a one-row greyscale image whose
  samples are the bytes themselves, and refuses the empty byte string as Pillow
  does.
\<close>

definition toy_library :: library where
  "toy_library =
     \<lparr>Image_open = (\<lambda>b. if b = [] then Inl UnidentifiedImageError
                         else Inr \<lparr>img_format = Some ''RAW'', img_mode = ''L'',
                                   img_width = length b, img_height = 1,
                                   img_exif = [], img_fp = b\<rparr>),
      Image_open_path = (\<lambda>path. Inl OSError),
      Image_convert = (\<lambda>img m. Inr (img\<lparr>img_mode := m\<rparr>)),
      Image_resize = (\<lambda>img size. Inr img),
      np_array = (\<lambda>img. if img_mode img = ''RGB''
                          then Inr \<lparr>shape = [1, length (img_fp img), 3],
                                    elems = concat (map (\<lambda>v. [v, v, v]) (img_fp img))\<rparr>
                          else Inr \<lparr>shape = [1, length (img_fp img)], elems = img_fp img\<rparr>),
      TAGS = Map.empty,
      bytes_decode = (\<lambda>b. None),
      py_str = (\<lambda>v. []),
      str_to_float = (\<lambda>s. None),
      bytes_to_float = (\<lambda>b. None),
      exc_str = (\<lambda>e. case e of
                         Exception m \<Rightarrow> m
                       | UnidentifiedImageError \<Rightarrow> ''cannot identify image file''
                       | _ \<Rightarrow> [])\<rparr>"

definition toy_session :: session where
  "toy_session =
     \<lparr>get_inputs = [''input''],
      run = (\<lambda>name input_data. Inr [[[1 / 16, 1 / 4, 1 / 1000000, 9 / 10]]])\<rparr>"

text \<open>A session whose \<open>run\<close> raises.\<close>

definition broken_session :: session where
  "broken_session =
     \<lparr>get_inputs = [''input''],
      run = (\<lambda>name input_data. Inl (RuntimeError ''inference failed''))\<rparr>"





text \<open>
  The row \<open>create_dataset_from_images\<close> is to add for one image, if any: the image
  gets a row exactly when its EXIF data exists and yields settings, and the row
  records focal_length as 0 when the settings have none.
\<close>

definition dataset_row :: "library \<Rightarrow> string \<Rightarrow> row option" where
  "dataset_row lib img_path =
     (case extract_exif_data lib img_path of
        None \<Rightarrow> None
      | Some exif_data \<Rightarrow>
          (case parse_camera_settings lib exif_data of
             None \<Rightarrow> None
           | Some settings \<Rightarrow>
               (case (settings ''iso'', settings ''aperture'', settings ''shutter_speed'') of
                  (Some i, Some a, Some s) \<Rightarrow>
                    Some ((\<lambda>c. NaNC)
                           (''image_path'' := TextC img_path,
                            ''iso'' := NumC i,
                            ''aperture'' := NumC a,
                            ''shutter_speed'' := NumC s,
                            ''focal_length'' :=
                               NumC (case settings ''focal_length'' of Some f \<Rightarrow> f | None \<Rightarrow> 0)))
                | _ \<Rightarrow> None)))"

text \<open>
  EXIF dictionaries for concrete runs: one with the three settings and no focal
  length, one whose focal length is the rational 50/0.
\<close>

definition plain_exif :: "tag \<rightharpoonup> exif_value" where
  "plain_exif =
     [TagName ''ISOSpeedRatings'' \<mapsto> Num 100,
      TagName ''FNumber'' \<mapsto> Tuple [Num 28, Num 10],
      TagName ''ExposureTime'' \<mapsto> Num (1 / 100)]"

definition bad_focal_exif :: "tag \<rightharpoonup> exif_value" where
  "bad_focal_exif =
     [TagName ''ISOSpeedRatings'' \<mapsto> Num 100,
      TagName ''FNumber'' \<mapsto> Num (14 / 5),
      TagName ''ExposureTime'' \<mapsto> Num (1 / 100),
      TagName ''FocalLength'' \<mapsto> Tuple [Num 50, Num 0]]"

text \<open>
  A library that opens \<open>a.jpg\<close> (the three settings, no focal length) and \<open>b.jpg\<close>
  (no EXIF data), and no other path.
\<close>

definition exif_library :: library where
  "exif_library =
     toy_library
       \<lparr>Image_open_path :=
          (\<lambda>path.
             if path = ''a.jpg''
             then Inr \<lparr>img_format = Some ''JPEG'', img_mode = ''RGB'', img_width = 4,
                       img_height = 3,
                       img_exif = [(34855, Num 100), (33437, Tuple [Num 28, Num 10]),
                                   (33434, Num (1 / 100))],
                       img_fp = []\<rparr>
             else if path = ''b.jpg''
             then Inr \<lparr>img_format = Some ''JPEG'', img_mode = ''RGB'', img_width = 4,
                       img_height = 3, img_exif = [], img_fp = []\<rparr>
             else Inl OSError),
        TAGS := [33434 \<mapsto> ''ExposureTime'', 33437 \<mapsto> ''FNumber'',
                 34855 \<mapsto> ''ISOSpeedRatings'', 37386 \<mapsto> ''FocalLength'']\<rparr>"



definition photo_row :: "string \<Rightarrow> rat \<Rightarrow> row" where
  "photo_row path v = (\<lambda>c. if c = ''image_path'' then TextC path else NumC v)"

definition photo_frame :: frame where
  "photo_frame =
     \<lparr>columns = [''image_path'', ''iso''],
      rows = [photo_row ''a.jpg'' 100, photo_row ''b.jpg'' 400, photo_row ''c.jpg'' 200]\<rparr>"

section \<open>Properties of the rule-based advisor\<close>

lemmas profile_defs =
  portrait_profile_def landscape_profile_def action_profile_def
  low_light_profile_def default_profile_def

lemma rule_based_cases:
  "rule_based_suggestions p cs \<in>
     {portrait_profile, landscape_profile, action_profile, low_light_profile, default_profile}"
  by (simp add: rule_based_suggestions_def Let_def)

lemma profile_keys:
  assumes "d \<in> {portrait_profile, landscape_profile, action_profile, low_light_profile,
                 default_profile}"
  shows "dom d = {''iso'', ''aperture'', ''shutter_speed'', ''explanation'', ''source''}"
    and "d ''source'' = Some (StrV ''rule-based'')"
  using assms by (auto simp: profile_defs split: if_splits)


lemma rule_based_source:
  "rule_based_suggestions p cs ''source'' = Some (StrV ''rule-based'')"
  by (rule profile_keys(2) [OF rule_based_cases])




section \<open>Properties of the reply parser\<close>










lemma example_reply_pieces:
  "contains (lower ''Use ISO 800 with aperture F/2.8 and shutter 1/250 s'') ''iso''"
  "find_iso (split ''Use ISO 800 with aperture F/2.8 and shutter 1/250 s'') = Inr (Some 800)"
  "contains (lower ''Use ISO 800 with aperture F/2.8 and shutter 1/250 s'') ''f/''"
  "search_aperture (lower ''Use ISO 800 with aperture F/2.8 and shutter 1/250 s'') = Some ''2.8''"
  "contains (lower ''Use ISO 800 with aperture F/2.8 and shutter 1/250 s'') ''shutter''"
  "search_shutter ''Use ISO 800 with aperture F/2.8 and shutter 1/250 s'' = Some ''250''"
  by code_simp+

lemma example_reply_parse:
  "parse_llm_response ''Use ISO 800 with aperture F/2.8 and shutter 1/250 s'' =
     Inr [''iso'' \<mapsto> IntV 800, ''aperture'' \<mapsto> StrV ''f/2.8'',
          ''shutter_speed'' \<mapsto> StrV ''1/250s'']"
  by (simp add: parse_llm_response_def example_reply_pieces
        del: search_shutter.simps search_aperture.simps contains.simps find_iso.simps)


section \<open>Properties of \<open>LLMAdvisor.suggest\<close>\<close>

lemma llm_path_Inr_iff:
  "llm_path c prompt cs = Inr s \<longleftrightarrow>
     (\<exists>response choice rest text d.
        c (build_request prompt cs) = Inr response
        \<and> choices response = choice # rest
        \<and> message_content choice = Some text
        \<and> parse_llm_response text = Inr d
        \<and> s = d(''explanation'' \<mapsto> StrV text, ''source'' \<mapsto> StrV ''llm''))"
  unfolding llm_path_def
  by (auto split: sum.splits list.splits option.splits)

lemma llm_path_source:
  "llm_path c prompt cs = Inr s \<Longrightarrow> s ''source'' = Some (StrV ''llm'')"
  by (auto simp: llm_path_Inr_iff)

lemma sunset_misses:
  "\<not> keyword_hit (lower ''sunset'') portrait_words"
  "\<not> keyword_hit (lower ''sunset'') landscape_words"
  "\<not> keyword_hit (lower ''sunset'') action_words"
  "\<not> keyword_hit (lower ''sunset'') low_light_words"
  by code_simp+

text \<open>
  C2 (as stated) fails: with a client configured and an API call that returns
  normally, but whose first choice has no text content, \<open>suggest\<close> answers with the
  rule-based suggestion.
\<close>

theorem suggest_llm_counterexample:
  "silent_client (build_request ''sunset'' None) = Inr \<lparr>choices = [\<lparr>message_content = None\<rparr>]\<rparr>
   \<and> suggest (Some silent_client) ''sunset'' None = Inr default_profile
   \<and> default_profile ''source'' = Some (StrV ''rule-based'')"
proof -
  have "llm_path silent_client ''sunset'' None = Inl AttributeError"
    by (simp add: llm_path_def silent_client_def)
  moreover have "rule_based_suggestions ''sunset'' None
      = default_profile"
    by (simp add: rule_based_suggestions_def sunset_misses)
  ultimately show ?thesis
    by (simp add: suggest_def silent_client_def default_profile_def)
qed

text \<open>
  C2 (amended).  \<open>suggest\<close> never raises.  With a client configured and the whole
  LLM path succeeding (the API call returns, its first choice exists and has text
  content, and parsing that text raises nothing) it returns the parsed settings
  with the explanation and source "llm".  It returns the rule-based suggestion,
  whose source is "rule-based", exactly when no client is configured or some step
  of the LLM path raises.
\<close>

theorem suggest_fallback:
  "(\<exists>d. suggest client prompt cs = Inr d)
   \<and> (\<forall>c s. client = Some c \<and> llm_path c prompt cs = Inr s \<longrightarrow>
         suggest client prompt cs = Inr s \<and> s ''source'' = Some (StrV ''llm''))
   \<and> (client = None \<or> (\<exists>c e. client = Some c \<and> llm_path c prompt cs = Inl e) \<longrightarrow>
         suggest client prompt cs = Inr (rule_based_suggestions prompt cs))
   \<and> ((\<exists>d. suggest client prompt cs = Inr d \<and> d ''source'' = Some (StrV ''rule-based''))
        \<longleftrightarrow> client = None \<or> (\<exists>c e. client = Some c \<and> llm_path c prompt cs = Inl e))
   \<and> (\<forall>c s. llm_path c prompt cs = Inr s \<longleftrightarrow>
         (\<exists>response choice rest text d.
            c (build_request prompt cs) = Inr response
            \<and> choices response = choice # rest
            \<and> message_content choice = Some text
            \<and> parse_llm_response text = Inr d
            \<and> s = d(''explanation'' \<mapsto> StrV text, ''source'' \<mapsto> StrV ''llm'')))"
proof (intro conjI)
  show "\<exists>d. suggest client prompt cs = Inr d"
    by (simp add: suggest_def split: option.splits sum.splits)
  show "\<forall>c s. client = Some c \<and> llm_path c prompt cs = Inr s \<longrightarrow>
         suggest client prompt cs = Inr s \<and> s ''source'' = Some (StrV ''llm'')"
    by (auto simp: suggest_def dest: llm_path_source)
  show "client = None \<or> (\<exists>c e. client = Some c \<and> llm_path c prompt cs = Inl e) \<longrightarrow>
         suggest client prompt cs = Inr (rule_based_suggestions prompt cs)"
    by (auto simp: suggest_def)
  show "(\<exists>d. suggest client prompt cs = Inr d \<and> d ''source'' = Some (StrV ''rule-based''))
        \<longleftrightarrow> client = None \<or> (\<exists>c e. client = Some c \<and> llm_path c prompt cs = Inl e)"
  proof (cases client)
    case None
    then show ?thesis by (simp add: suggest_def rule_based_source)
  next
    case (Some c)
    show ?thesis
    proof (cases "llm_path c prompt cs")
      case (Inl e)
      with Some show ?thesis by (simp add: suggest_def rule_based_source)
    next
      case (Inr s)
      with llm_path_source [OF Inr] Some show ?thesis by (simp add: suggest_def)
    qed
  qed
  show "\<forall>c s. llm_path c prompt cs = Inr s \<longleftrightarrow>
         (\<exists>response choice rest text d.
            c (build_request prompt cs) = Inr response
            \<and> choices response = choice # rest
            \<and> message_content choice = Some text
            \<and> parse_llm_response text = Inr d
            \<and> s = d(''explanation'' \<mapsto> StrV text, ''source'' \<mapsto> StrV ''llm''))"
    by (intro allI) (rule llm_path_Inr_iff)
qed

lemma fixed_client_path:
  "llm_path fixed_client ''sunset'' None =
     Inr [''iso'' \<mapsto> IntV 800, ''aperture'' \<mapsto> StrV ''f/2.8'',
          ''shutter_speed'' \<mapsto> StrV ''1/250s'',
          ''explanation'' \<mapsto> StrV ''Use ISO 800 with aperture F/2.8 and shutter 1/250 s'',
          ''source'' \<mapsto> StrV ''llm'']"
  by (simp add: llm_path_def fixed_client_def example_reply_parse)

lemma failing_client_path:
  "llm_path failing_client ''sunset'' None = Inl (Exception ''Connection error.'')"
  by (simp add: llm_path_def failing_client_def)

theorem suggest_fallback_witness:
  "suggest (Some fixed_client) ''sunset'' None =
     Inr [''iso'' \<mapsto> IntV 800, ''aperture'' \<mapsto> StrV ''f/2.8'',
          ''shutter_speed'' \<mapsto> StrV ''1/250s'',
          ''explanation'' \<mapsto> StrV ''Use ISO 800 with aperture F/2.8 and shutter 1/250 s'',
          ''source'' \<mapsto> StrV ''llm'']
   \<and> suggest (Some failing_client) ''sunset'' None
       = Inr (rule_based_suggestions ''sunset'' None)
   \<and> suggest None ''sunset'' None = Inr (rule_based_suggestions ''sunset'' None)"
proof (intro conjI)
  show "suggest (Some fixed_client) ''sunset'' None =
     Inr [''iso'' \<mapsto> IntV 800, ''aperture'' \<mapsto> StrV ''f/2.8'',
          ''shutter_speed'' \<mapsto> StrV ''1/250s'',
          ''explanation'' \<mapsto> StrV ''Use ISO 800 with aperture F/2.8 and shutter 1/250 s'',
          ''source'' \<mapsto> StrV ''llm'']"
    using suggest_fallback [of "Some fixed_client" "''sunset''" None,
        THEN conjunct2, THEN conjunct1, rule_format, OF conjI [OF refl fixed_client_path]]
    by (rule conjunct1)
  show "suggest (Some failing_client) ''sunset'' None
       = Inr (rule_based_suggestions ''sunset'' None)"
    using suggest_fallback [of "Some failing_client" "''sunset''" None,
        THEN conjunct2, THEN conjunct2, THEN conjunct1] failing_client_path
    by simp
  show "suggest None ''sunset'' None = Inr (rule_based_suggestions ''sunset'' None)"
    using suggest_fallback [of None "''sunset''" None,
        THEN conjunct2, THEN conjunct2, THEN conjunct1]
    by simp
qed

section \<open>Properties of the settings predictor\<close>

lemma parse_outputs_keys:
  "parse_outputs outputs = Inr p \<Longrightarrow>
     dom p = {''iso'', ''aperture'', ''shutter_speed'', ''confidence''}"
  by (auto simp: parse_outputs_def split: list.splits if_splits)

lemma onnx_path_keys:
  "onnx_path lib s b = Inr p \<Longrightarrow>
     dom p = {''iso'', ''aperture'', ''shutter_speed'', ''confidence''}"
  by (auto simp: onnx_path_def parse_outputs_keys split: sum.splits list.splits)

lemma rule_based_prediction_Inr:
  assumes "rule_based_prediction lib b = Inr d"
  shows "dom d = {''iso'', ''aperture'', ''shutter_speed'', ''avg_brightness'', ''note''}"
    and "d ''note'' = Some (StrV ''Rule-based prediction (ML model not available)'')"
  using assms
  by (auto simp: rule_based_prediction_def Let_def split: sum.splits if_splits)

lemma rule_based_prediction_note:
  "rule_based_prediction lib b = Inr d \<Longrightarrow> ''note'' \<in> dom d"
  by (simp add: rule_based_prediction_Inr(1))

lemma onnx_path_no_note:
  "onnx_path lib s b = Inr p \<Longrightarrow> ''note'' \<notin> dom p"
  by (simp add: onnx_path_keys)

lemma toy_open:
  "Image_open toy_library [10, 20, 30] =
     Inr \<lparr>img_format = Some ''RAW'', img_mode = ''L'', img_width = 3, img_height = 1,
          img_exif = [], img_fp = [10, 20, 30]\<rparr>"
  by (simp add: toy_library_def)

lemma toy_array:
  "np_array toy_library
     \<lparr>img_format = Some ''RAW'', img_mode = ''L'', img_width = 3, img_height = 1,
      img_exif = [], img_fp = [10, 20, 30]\<rparr>
   = Inr \<lparr>shape = [1, 3], elems = [10, 20, 30]\<rparr>"
  by (simp add: toy_library_def)

text \<open>
  C4.  For every image that decodes (it opens, converts to greyscale when its mode
  is not L, and its raster loads), the brightness heuristic returns the dictionary
  whose avg_brightness is the mean of the greyscale samples and whose settings are
  ISO 1600, f/2.8, 1/60s when the mean is below 85; ISO 400, f/5.6, 1/125s when it
  is at least 85 and below 170; and ISO 100, f/8.0, 1/500s otherwise (which
  includes the mean of no samples, NaN).
\<close>

theorem rule_based_prediction_profile:
  assumes "Image_open lib image_bytes = Inr img"
    and "(if img_mode img \<noteq> ''L'' then Image_convert lib img ''L'' else Inr img) = Inr gray"
    and "np_array lib gray = Inr a"
  shows "\<exists>d. rule_based_prediction lib image_bytes = Inr d
    \<and> d ''avg_brightness'' = Some (float_val (np_mean a))
    \<and> np_mean a =
        (if elems a = [] then None
         else Some (rat_of_nat (sum_list (map unat (elems a))) / rat_of_nat (length (elems a))))
    \<and> (d ''iso'', d ''aperture'', d ''shutter_speed'') =
        (case np_mean a of
           None \<Rightarrow> (Some (IntV 100), Some (StrV ''f/8.0''), Some (StrV ''1/500s''))
         | Some mean \<Rightarrow>
             if mean < 85 then (Some (IntV 1600), Some (StrV ''f/2.8''), Some (StrV ''1/60s''))
             else if 85 \<le> mean \<and> mean < 170
               then (Some (IntV 400), Some (StrV ''f/5.6''), Some (StrV ''1/125s''))
             else (Some (IntV 100), Some (StrV ''f/8.0''), Some (StrV ''1/500s'')))"
proof (cases "np_mean a")
  case None
  with assms show ?thesis
    by (simp add: rule_based_prediction_def float_lt_def np_mean_def)
next
  case (Some mean)
  with assms show ?thesis
    by (simp add: rule_based_prediction_def float_lt_def np_mean_def)
qed

theorem rule_based_prediction_profile_witness:
  "\<exists>d. rule_based_prediction toy_library [10, 20, 30] = Inr d
     \<and> d ''avg_brightness'' = Some (FloatV 20)
     \<and> (d ''iso'', d ''aperture'', d ''shutter_speed'') =
         (Some (IntV 1600), Some (StrV ''f/2.8''), Some (StrV ''1/60s''))"
  using rule_based_prediction_profile [OF toy_open, of _ "\<lparr>shape = [1, 3], elems = [10, 20, 30]\<rparr>"]
    toy_array
  by (simp add: np_mean_def float_val_def)

text \<open>
  C1 (as stated) fails: with no session loaded and a byte string Pillow cannot
  identify, \<open>predict_settings\<close> raises instead of returning the heuristic's
  prediction.
\<close>

theorem predict_settings_counterexample:
  "predict_settings toy_library None [] = Inl UnidentifiedImageError"
  by (simp add: predict_settings_def predict_def rule_based_prediction_def toy_library_def)

text \<open>
  C1 (amended).  With a session loaded and the whole ONNX path succeeding
  (preprocessing, inference and building the prediction from the outputs),
  \<open>predict_settings\<close> returns that prediction, a dictionary with exactly the keys
  iso, aperture, shutter_speed and confidence.  When no session is loaded or the
  ONNX path raises, it behaves as the brightness heuristic on the same bytes:
  it returns the heuristic's dictionary (the keys iso, aperture, shutter_speed,
  avg_brightness and note, the note saying that the model is not available) if
  the heuristic can decode the image, and raises the heuristic's own exception
  otherwise.  It returns a dictionary with a note in no other case, and an
  exception it raises is always the heuristic's, never the ONNX path's.
\<close>

theorem predict_settings_fallback:
  "(\<forall>s p. sess = Some s \<and> onnx_path lib s image_bytes = Inr p \<longrightarrow>
       predict_settings lib sess image_bytes = Inr p
       \<and> dom p = {''iso'', ''aperture'', ''shutter_speed'', ''confidence''})
   \<and> (sess = None \<or> (\<exists>s e. sess = Some s \<and> onnx_path lib s image_bytes = Inl e) \<longrightarrow>
       predict_settings lib sess image_bytes = rule_based_prediction lib image_bytes)
   \<and> (\<forall>d. rule_based_prediction lib image_bytes = Inr d \<longrightarrow>
       dom d = {''iso'', ''aperture'', ''shutter_speed'', ''avg_brightness'', ''note''}
       \<and> d ''note'' = Some (StrV ''Rule-based prediction (ML model not available)''))
   \<and> ((\<exists>d. predict_settings lib sess image_bytes = Inr d \<and> ''note'' \<in> dom d) \<longleftrightarrow>
       (sess = None \<or> (\<exists>s e. sess = Some s \<and> onnx_path lib s image_bytes = Inl e))
       \<and> (\<exists>d. rule_based_prediction lib image_bytes = Inr d))
   \<and> (\<forall>e. predict_settings lib sess image_bytes = Inl e \<longrightarrow>
       rule_based_prediction lib image_bytes = Inl e)"
proof (intro conjI)
  show "\<forall>s p. sess = Some s \<and> onnx_path lib s image_bytes = Inr p \<longrightarrow>
       predict_settings lib sess image_bytes = Inr p
       \<and> dom p = {''iso'', ''aperture'', ''shutter_speed'', ''confidence''}"
  proof (intro allI impI, elim conjE)
    fix s p
    assume "sess = Some s" and p: "onnx_path lib s image_bytes = Inr p"
    then have r: "predict_settings lib sess image_bytes = Inr p"
      by (simp add: predict_settings_def predict_def)
    have k: "dom p = {''iso'', ''aperture'', ''shutter_speed'', ''confidence''}"
      by (rule onnx_path_keys [OF p])
    from r k
    show "predict_settings lib sess image_bytes = Inr p
       \<and> dom p = {''iso'', ''aperture'', ''shutter_speed'', ''confidence''}"
      by (rule conjI)
  qed
  show "sess = None \<or> (\<exists>s e. sess = Some s \<and> onnx_path lib s image_bytes = Inl e) \<longrightarrow>
       predict_settings lib sess image_bytes = rule_based_prediction lib image_bytes"
    by (auto simp: predict_settings_def predict_def)
  show "\<forall>d. rule_based_prediction lib image_bytes = Inr d \<longrightarrow>
       dom d = {''iso'', ''aperture'', ''shutter_speed'', ''avg_brightness'', ''note''}
       \<and> d ''note'' = Some (StrV ''Rule-based prediction (ML model not available)'')"
    by (simp add: rule_based_prediction_Inr)
  show "(\<exists>d. predict_settings lib sess image_bytes = Inr d \<and> ''note'' \<in> dom d) \<longleftrightarrow>
       (sess = None \<or> (\<exists>s e. sess = Some s \<and> onnx_path lib s image_bytes = Inl e))
       \<and> (\<exists>d. rule_based_prediction lib image_bytes = Inr d)"
  proof (cases sess)
    case None
    then show ?thesis
      using rule_based_prediction_note [of lib image_bytes]
      by (auto simp: predict_settings_def predict_def)
  next
    case (Some s)
    show ?thesis
    proof (cases "onnx_path lib s image_bytes")
      case (Inl e)
      with Some show ?thesis
        using rule_based_prediction_note [of lib image_bytes]
        by (auto simp: predict_settings_def predict_def)
    next
      case (Inr p)
      with Some onnx_path_no_note [OF Inr] show ?thesis
        by (auto simp: predict_settings_def predict_def)
    qed
  qed
  show "\<forall>e. predict_settings lib sess image_bytes = Inl e \<longrightarrow>
       rule_based_prediction lib image_bytes = Inl e"
    by (auto simp: predict_settings_def predict_def split: option.splits sum.splits)
qed

lemma toy_preprocess:
  "preprocess_image toy_library [10, 20, 30] =
     Inr \<lparr>shape = [1, 3, 1, 3],
          elems = [2 / 51, 4 / 51, 2 / 17, 2 / 51, 4 / 51, 2 / 17, 2 / 51, 4 / 51, 2 / 17]\<rparr>"
  by code_simp

lemma toy_onnx_path:
  "onnx_path toy_library toy_session [10, 20, 30] =
     Inr [''iso'' \<mapsto> IntV 400, ''aperture'' \<mapsto> StrV ''f/5.5'',
          ''shutter_speed'' \<mapsto> StrV ''1/125s'', ''confidence'' \<mapsto> FloatV (9 / 10)]"
proof -
  have "py_trunc (1 / 16 * 6400) = 400" "format_1f (1 / 4 * 22) = ''5.5''"
    "str_int (py_trunc (1 / (1 / 1000000 * 8000))) = ''125''"
    by code_simp+
  then show ?thesis
    by (simp add: onnx_path_def toy_preprocess toy_session_def parse_outputs_def)
qed

lemma broken_onnx_path:
  "onnx_path toy_library broken_session [10, 20, 30] = Inl (RuntimeError ''inference failed'')"
  by (simp add: onnx_path_def toy_preprocess broken_session_def)

theorem predict_settings_fallback_witness:
  "predict_settings toy_library (Some toy_session) [10, 20, 30] =
     Inr [''iso'' \<mapsto> IntV 400, ''aperture'' \<mapsto> StrV ''f/5.5'',
          ''shutter_speed'' \<mapsto> StrV ''1/125s'', ''confidence'' \<mapsto> FloatV (9 / 10)]
   \<and> predict_settings toy_library (Some broken_session) [10, 20, 30]
       = rule_based_prediction toy_library [10, 20, 30]
   \<and> predict_settings toy_library None [10, 20, 30]
       = rule_based_prediction toy_library [10, 20, 30]"
proof (intro conjI)
  show "predict_settings toy_library (Some toy_session) [10, 20, 30] =
     Inr [''iso'' \<mapsto> IntV 400, ''aperture'' \<mapsto> StrV ''f/5.5'',
          ''shutter_speed'' \<mapsto> StrV ''1/125s'', ''confidence'' \<mapsto> FloatV (9 / 10)]"
    using predict_settings_fallback [of "Some toy_session" toy_library "[10, 20, 30]",
        THEN conjunct1, rule_format, OF conjI [OF refl toy_onnx_path]]
    by (rule conjunct1)
  show "predict_settings toy_library (Some broken_session) [10, 20, 30]
       = rule_based_prediction toy_library [10, 20, 30]"
    using predict_settings_fallback [of "Some broken_session" toy_library "[10, 20, 30]",
        THEN conjunct2, THEN conjunct1] broken_onnx_path
    by simp
  show "predict_settings toy_library None [10, 20, 30]
       = rule_based_prediction toy_library [10, 20, 30]"
    using predict_settings_fallback [of None toy_library "[10, 20, 30]",
        THEN conjunct2, THEN conjunct1]
    by simp
qed

section \<open>Properties of the metadata extractor\<close>




section \<open>Properties of \<open>split_dataset\<close>\<close>










section \<open>Properties of \<open>parse_camera_settings\<close> and \<open>create_dataset_from_images\<close>\<close>

lemma parse_field_cases:
  "parse_field exif_data key name conv settings = r \<longleftrightarrow>
     (exif_data (TagName key) = None \<and> r = Inr settings)
     \<or> (\<exists>v e. exif_data (TagName key) = Some v \<and> conv v = Inl e \<and> r = Inl e)
     \<or> (\<exists>v x. exif_data (TagName key) = Some v \<and> conv v = Inr x
           \<and> r = Inr (settings(name \<mapsto> x)))"
  by (auto simp: parse_field_def split: option.splits sum.splits)

lemma then_do_Inr:
  "then_do r f = Inr y \<longleftrightarrow> (\<exists>x. r = Inr x \<and> f x = Inr y)"
  by (auto simp: then_do_def split: sum.splits)

lemma parse_camera_settings_Some:
  "parse_camera_settings lib exif_data = Some settings \<longleftrightarrow>
     parse_fields lib exif_data = Inr settings
     \<and> settings ''iso'' \<noteq> None \<and> settings ''aperture'' \<noteq> None
     \<and> settings ''shutter_speed'' \<noteq> None"
  by (auto simp: parse_camera_settings_def split: sum.splits)

lemma parse_field_Inr:
  "parse_field exif_data key name conv settings = Inr s' \<longleftrightarrow>
     (case exif_data (TagName key) of
        None \<Rightarrow> s' = settings
      | Some v \<Rightarrow> \<exists>x. conv v = Inr x \<and> s' = settings(name \<mapsto> x))"
  by (auto simp: parse_field_def split: option.splits sum.splits)

lemma parse_fields_Inr:
  "parse_fields lib exif_data = Inr settings \<longleftrightarrow>
     (\<exists>s1 s2 s3.
        (case exif_data (TagName ''ISOSpeedRatings'') of
           None \<Rightarrow> s1 = Map.empty
         | Some v \<Rightarrow> \<exists>x. py_float lib v = Inr x \<and> s1 = [''iso'' \<mapsto> x])
      \<and> (case exif_data (TagName ''FNumber'') of
           None \<Rightarrow> s2 = s1
         | Some v \<Rightarrow> \<exists>x. ratio_or_float lib v = Inr x \<and> s2 = s1(''aperture'' \<mapsto> x))
      \<and> (case exif_data (TagName ''ExposureTime'') of
           None \<Rightarrow> s3 = s2
         | Some v \<Rightarrow> \<exists>x. ratio_or_float lib v = Inr x \<and> s3 = s2(''shutter_speed'' \<mapsto> x))
      \<and> (case exif_data (TagName ''FocalLength'') of
           None \<Rightarrow> settings = s3
         | Some v \<Rightarrow> \<exists>x. ratio_or_float lib v = Inr x \<and> settings = s3(''focal_length'' \<mapsto> x)))"
  unfolding parse_fields_def then_do_Inr parse_field_Inr by blast

text \<open>
  C6 (as stated) fails: an EXIF dictionary whose ISOSpeedRatings, FNumber and
  ExposureTime all convert, but whose FocalLength is the rational 50/0, yields no
  settings.
\<close>

theorem parse_camera_settings_counterexample:
  "bad_focal_exif (TagName ''ISOSpeedRatings'') = Some (Num 100)
   \<and> py_float toy_library (Num 100) = Inr 100
   \<and> bad_focal_exif (TagName ''FNumber'') = Some (Num (14 / 5))
   \<and> ratio_or_float toy_library (Num (14 / 5)) = Inr (14 / 5)
   \<and> bad_focal_exif (TagName ''ExposureTime'') = Some (Num (1 / 100))
   \<and> ratio_or_float toy_library (Num (1 / 100)) = Inr (1 / 100)
   \<and> parse_camera_settings toy_library bad_focal_exif = None"
  by (simp add: bad_focal_exif_def py_float_def ratio_or_float_def parse_camera_settings_def
      parse_fields_def parse_field_def then_do_def)

lemma parse_camera_settings_iff:
  "parse_camera_settings lib exif_data = Some settings \<longleftrightarrow>
     (\<exists>vi va vs i a s.
        exif_data (TagName ''ISOSpeedRatings'') = Some vi \<and> py_float lib vi = Inr i
      \<and> exif_data (TagName ''FNumber'') = Some va \<and> ratio_or_float lib va = Inr a
      \<and> exif_data (TagName ''ExposureTime'') = Some vs \<and> ratio_or_float lib vs = Inr s
      \<and> (case exif_data (TagName ''FocalLength'') of
           None \<Rightarrow>
             settings = [''iso'' \<mapsto> i, ''aperture'' \<mapsto> a, ''shutter_speed'' \<mapsto> s]
         | Some vf \<Rightarrow>
             \<exists>f. ratio_or_float lib vf = Inr f
               \<and> settings = [''iso'' \<mapsto> i, ''aperture'' \<mapsto> a, ''shutter_speed'' \<mapsto> s,
                             ''focal_length'' \<mapsto> f]))"
proof (cases "exif_data (TagName ''ISOSpeedRatings'')")
  case None
  then show ?thesis
    by (auto simp: parse_camera_settings_def parse_fields_def then_do_def parse_field_def
        split: sum.splits option.splits)
next
  case iso_v: (Some vi)
  show ?thesis
  proof (cases "exif_data (TagName ''FNumber'')")
    case None
    with iso_v show ?thesis
      by (auto simp: parse_camera_settings_def parse_fields_def then_do_def parse_field_def
          split: sum.splits option.splits)
  next
    case ap_v: (Some va)
    show ?thesis
    proof (cases "exif_data (TagName ''ExposureTime'')")
      case None
      with iso_v ap_v show ?thesis
        by (auto simp: parse_camera_settings_def parse_fields_def then_do_def parse_field_def
            split: sum.splits option.splits)
    next
      case sh_v: (Some vs)
      show ?thesis
      proof (cases "exif_data (TagName ''FocalLength'')")
        case None
        with iso_v ap_v sh_v show ?thesis
          by (auto simp: parse_camera_settings_def parse_fields_def then_do_def parse_field_def
              split: sum.splits)
      next
        case (Some vf)
        with iso_v ap_v sh_v show ?thesis
          by (auto simp: parse_camera_settings_def parse_fields_def then_do_def parse_field_def
              split: sum.splits)
      qed
    qed
  qed
qed

lemma parse_camera_settings_keys:
  assumes "parse_camera_settings lib exif_data = Some settings"
  shows "\<exists>i a s. settings ''iso'' = Some i \<and> settings ''aperture'' = Some a
           \<and> settings ''shutter_speed'' = Some s"
    and "settings \<noteq> Map.empty"
    and "exif_data \<noteq> Map.empty"
proof -
  from assms show k: "\<exists>i a s. settings ''iso'' = Some i \<and> settings ''aperture'' = Some a
           \<and> settings ''shutter_speed'' = Some s"
    by (auto simp: parse_camera_settings_Some)
  then show "settings \<noteq> Map.empty" by auto
  from assms show "exif_data \<noteq> Map.empty"
    by (auto simp: parse_camera_settings_iff)
qed

lemma dataset_row_Some_iff:
  "dataset_row lib p = Some r \<longleftrightarrow>
     (\<exists>exif_data settings i a s.
        extract_exif_data lib p = Some exif_data
      \<and> parse_camera_settings lib exif_data = Some settings
      \<and> settings ''iso'' = Some i \<and> settings ''aperture'' = Some a
      \<and> settings ''shutter_speed'' = Some s
      \<and> r = (\<lambda>c. NaNC)
              (''image_path'' := TextC p, ''iso'' := NumC i, ''aperture'' := NumC a,
               ''shutter_speed'' := NumC s,
               ''focal_length'' :=
                  NumC (case settings ''focal_length'' of Some f \<Rightarrow> f | None \<Rightarrow> 0)))"
  by (auto simp: dataset_row_def split: option.splits)

lemma dataset_row_None_iff:
  "dataset_row lib p = None \<longleftrightarrow>
     (\<forall>exif_data. extract_exif_data lib p = Some exif_data \<longrightarrow>
        parse_camera_settings lib exif_data = None)"
proof (cases "extract_exif_data lib p")
  case None
  then show ?thesis by (simp add: dataset_row_def)
next
  case (Some exif_data)
  show ?thesis
  proof (cases "parse_camera_settings lib exif_data")
    case None
    with Some show ?thesis by (simp add: dataset_row_def)
  next
    case (Some settings)
    from parse_camera_settings_keys(1) [OF Some] \<open>extract_exif_data lib p = Some exif_data\<close> Some
    show ?thesis by (auto simp: dataset_row_def)
  qed
qed

lemma collect_rows_step:
  "collect_rows lib (p # rest) =
     (case dataset_row lib p of
        None \<Rightarrow> collect_rows lib rest
      | Some r \<Rightarrow> (case collect_rows lib rest of Inl e \<Rightarrow> Inl e | Inr data \<Rightarrow> Inr (r # data)))"
proof (cases "extract_exif_data lib p")
  case None
  then show ?thesis by (simp add: dataset_row_def)
next
  case ex: (Some exif_data)
  show ?thesis
  proof (cases "parse_camera_settings lib exif_data")
    case None
    with ex show ?thesis by (simp add: dataset_row_def)
  next
    case (Some settings)
    from parse_camera_settings_keys [OF Some] obtain i a s where
      k: "settings ''iso'' = Some i" "settings ''aperture'' = Some a"
         "settings ''shutter_speed'' = Some s"
      and ne: "settings \<noteq> Map.empty" "exif_data \<noteq> Map.empty"
      by blast
    with ex Some show ?thesis by (simp add: dataset_row_def)
  qed
qed

lemma collect_rows_eq:
  "collect_rows lib image_files = Inr (List.map_filter (dataset_row lib) image_files)"
proof (induction image_files)
  case Nil
  then show ?case by (simp add: List.map_filter_simps)
next
  case (Cons p rest)
  then show ?case
    by (simp add: collect_rows_step List.map_filter_simps split: option.splits
        del: collect_rows.simps)
qed

text \<open>
  C6 (amended).  \<open>parse_camera_settings\<close> returns a settings dictionary if and only
  if ISOSpeedRatings, FNumber and ExposureTime are all present and convert without
  error and FocalLength, when present, converts without error too; the dictionary
  then holds iso, aperture and shutter_speed, and focal_length when present.  It
  returns None otherwise.  \<open>create_dataset_from_images\<close> adds, in order, a row
  for an image exactly when \<open>extract_exif_data\<close> yields EXIF data for
  which \<open>parse_camera_settings\<close> returns settings; the row records focal_length as 0
  when the settings have none.
\<close>

theorem create_dataset_rows:
  "(parse_camera_settings lib exif_data = Some settings \<longleftrightarrow>
     (\<exists>vi va vs i a s.
        exif_data (TagName ''ISOSpeedRatings'') = Some vi \<and> py_float lib vi = Inr i
      \<and> exif_data (TagName ''FNumber'') = Some va \<and> ratio_or_float lib va = Inr a
      \<and> exif_data (TagName ''ExposureTime'') = Some vs \<and> ratio_or_float lib vs = Inr s
      \<and> (case exif_data (TagName ''FocalLength'') of
           None \<Rightarrow>
             settings = [''iso'' \<mapsto> i, ''aperture'' \<mapsto> a, ''shutter_speed'' \<mapsto> s]
         | Some vf \<Rightarrow>
             \<exists>f. ratio_or_float lib vf = Inr f
               \<and> settings = [''iso'' \<mapsto> i, ''aperture'' \<mapsto> a, ''shutter_speed'' \<mapsto> s,
                             ''focal_length'' \<mapsto> f])))
   \<and> create_dataset_from_images lib image_files =
       Inr \<lparr>columns = (if List.map_filter (dataset_row lib) image_files = [] then []
                       else [''image_path'', ''iso'', ''aperture'', ''shutter_speed'',
                             ''focal_length'']),
            rows = List.map_filter (dataset_row lib) image_files\<rparr>
   \<and> (dataset_row lib p = Some r \<longleftrightarrow>
       (\<exists>exif settings i a s.
          extract_exif_data lib p = Some exif
        \<and> parse_camera_settings lib exif = Some settings
        \<and> settings ''iso'' = Some i \<and> settings ''aperture'' = Some a
        \<and> settings ''shutter_speed'' = Some s
        \<and> r = (\<lambda>c. NaNC)
                (''image_path'' := TextC p, ''iso'' := NumC i, ''aperture'' := NumC a,
                 ''shutter_speed'' := NumC s,
                 ''focal_length'' :=
                    NumC (case settings ''focal_length'' of Some f \<Rightarrow> f | None \<Rightarrow> 0))))
   \<and> (dataset_row lib p = None \<longleftrightarrow>
       (\<forall>exif. extract_exif_data lib p = Some exif \<longrightarrow>
          parse_camera_settings lib exif = None))"
  by (intro conjI parse_camera_settings_iff dataset_row_Some_iff dataset_row_None_iff)
    (simp add: create_dataset_from_images_def collect_rows_eq)

lemma plain_exif_lookups:
  "plain_exif (TagName ''ISOSpeedRatings'') = Some (Num 100)"
  "plain_exif (TagName ''FNumber'') = Some (Tuple [Num 28, Num 10])"
  "plain_exif (TagName ''ExposureTime'') = Some (Num (1 / 100))"
  "plain_exif (TagName ''FocalLength'') = None"
  by (simp_all add: plain_exif_def)

lemma plain_exif_conversions:
  "py_float exif_library (Num 100) = Inr 100"
  "ratio_or_float exif_library (Tuple [Num 28, Num 10]) = Inr (14 / 5)"
  "ratio_or_float exif_library (Num (1 / 100)) = Inr (1 / 100)"
  by (simp_all add: py_float_def ratio_or_float_def)

lemma exif_library_extract:
  "extract_exif_data exif_library ''a.jpg'' = Some plain_exif"
  "extract_exif_data exif_library ''b.jpg'' = None"
  "extract_exif_data exif_library ''c.jpg'' = None"
  by (auto simp: extract_exif_data_def exif_library_def toy_library_def exif_dict_step_def
      plain_exif_def)

theorem create_dataset_rows_witness:
  "parse_camera_settings exif_library plain_exif =
     Some [''iso'' \<mapsto> 100, ''aperture'' \<mapsto> 14 / 5, ''shutter_speed'' \<mapsto> 1 / 100]
   \<and> create_dataset_from_images exif_library [''a.jpg'', ''b.jpg'', ''c.jpg''] =
       Inr \<lparr>columns = [''image_path'', ''iso'', ''aperture'', ''shutter_speed'', ''focal_length''],
            rows = [(\<lambda>c. NaNC)
                     (''image_path'' := TextC ''a.jpg'', ''iso'' := NumC 100,
                      ''aperture'' := NumC (14 / 5), ''shutter_speed'' := NumC (1 / 100),
                      ''focal_length'' := NumC 0)]\<rparr>"
proof -
  let ?s = "[''iso'' \<mapsto> 100, ''aperture'' \<mapsto> 14 / 5, ''shutter_speed'' \<mapsto> 1 / 100]
              :: string \<rightharpoonup> rat"
  let ?r = "(\<lambda>c. NaNC)
             (''image_path'' := TextC ''a.jpg'', ''iso'' := NumC 100,
              ''aperture'' := NumC (14 / 5), ''shutter_speed'' := NumC (1 / 100),
              ''focal_length'' := NumC 0)"
  note t = create_dataset_rows [of exif_library plain_exif ?s _ "''a.jpg''" ?r]
  have p: "parse_camera_settings exif_library plain_exif = Some ?s"
    apply (rule t [THEN conjunct1, THEN iffD2])
    apply (rule exI [of _ "Num 100"])
    apply (rule exI [of _ "Tuple [Num 28, Num 10]"])
    apply (rule exI [of _ "Num (1 / 100)"])
    apply (rule exI [of _ 100])
    apply (rule exI [of _ "14 / 5"])
    apply (rule exI [of _ "1 / 100"])
    apply (simp add: plain_exif_lookups plain_exif_conversions)
    done
  have a: "dataset_row exif_library ''a.jpg'' = Some ?r"
    apply (rule t [THEN conjunct2, THEN conjunct2, THEN conjunct1, THEN iffD2])
    apply (rule exI [of _ plain_exif])
    apply (rule exI [of _ ?s])
    apply (rule exI [of _ 100])
    apply (rule exI [of _ "14 / 5"])
    apply (rule exI [of _ "1 / 100"])
    apply (simp add: exif_library_extract p)
    done
  have b: "dataset_row exif_library ''b.jpg'' = None" "dataset_row exif_library ''c.jpg'' = None"
    by (simp_all add: dataset_row_def exif_library_extract)
  from create_dataset_rows [of exif_library plain_exif ?s "[''a.jpg'', ''b.jpg'', ''c.jpg'']"
      "''a.jpg''" ?r, THEN conjunct2, THEN conjunct1] p
  show ?thesis
    by (simp add: List.map_filter_simps a b)
qed

section \<open>Properties of \<open>normalize_settings\<close>\<close>

lemma get_column_set_column_other:
  "c \<noteq> column \<Longrightarrow> length vals = length (rows df) \<Longrightarrow>
     get_column (set_column df column vals) c = get_column df c"
  by (auto simp: get_column_def set_column_def list_eq_iff_nth_eq)


lemma length_rows_set_column:
  "length vals = length (rows df) \<Longrightarrow> length (rows (set_column df column vals)) = length (rows df)"
  by (simp add: set_column_def)

lemma columns_set_column:
  "column \<in> set (columns df) \<Longrightarrow> columns (set_column df column vals) = columns df"
  by (simp add: set_column_def)

lemma numeric_column_length:
  "numeric_column df column = Inr vals \<Longrightarrow> length vals = length (rows df)"
  by (auto simp: numeric_column_def get_column_def Let_def split: if_splits)

text \<open>The loop writes to \<open>df_normalized\<close> only.\<close>

lemma normalize_loop_frame:
  assumes "df_normalized < length st"
  shows "length (fst (normalize_loop cols df df_normalized st ps)) = length st
       \<and> (\<forall>a. a \<noteq> df_normalized \<longrightarrow>
             fst (normalize_loop cols df df_normalized st ps) ! a = st ! a)"
  using assms
proof (induction cols arbitrary: st ps)
  case Nil
  then show ?case by simp
next
  case (Cons column cols)
  show ?case
  proof (cases "column \<in> set (columns (st ! df))")
    case False
    with Cons show ?thesis by simp
  next
    case True
    show ?thesis
    proof (cases "numeric_column (st ! df) column")
      case (Inl e)
      with True show ?thesis by simp
    next
      case (Inr vals)
      define st' where "st' = st[df_normalized := set_column (st ! df_normalized) column
          (map float_cell (map (rescale (series_min vals) (series_max vals)) vals))]"
      define ps' where "ps' = ps(column \<mapsto> (series_min vals, series_max vals))"
      have l: "df_normalized < length st'" using Cons.prems by (simp add: st'_def)
      have step: "normalize_loop (column # cols) df df_normalized st ps
          = normalize_loop cols df df_normalized st' ps'"
        using True Inr by (simp add: Let_def st'_def ps'_def)
      have same: "length st' = length st" "\<And>a. a \<noteq> df_normalized \<Longrightarrow> st' ! a = st ! a"
        by (simp_all add: st'_def)
      from Cons.IH [OF l, of ps'] same
      show ?thesis unfolding step by simp
    qed
  qed
qed

text \<open>
  What the loop does to \<open>df_normalized\<close>, given that it starts as a copy of \<open>df\<close>
  as far as row count and column names go.
\<close>

lemma normalize_loop_columns:
  assumes "df < length st" "df_normalized < length st" "df \<noteq> df_normalized"
    and "length (rows (st ! df_normalized)) = length (rows (st ! df))"
    and "columns (st ! df_normalized) = columns (st ! df)"
  shows "length (rows (fst (normalize_loop cols df df_normalized st ps) ! df_normalized))
           = length (rows (st ! df))
       \<and> columns (fst (normalize_loop cols df df_normalized st ps) ! df_normalized)
           = columns (st ! df)
       \<and> (\<forall>c. c \<notin> set cols \<longrightarrow>
             get_column (fst (normalize_loop cols df df_normalized st ps) ! df_normalized) c
               = get_column (st ! df_normalized) c)"
  using assms
proof (induction cols arbitrary: st ps)
  case Nil
  then show ?case by simp
next
  case (Cons column cols)
  show ?case
  proof (cases "column \<in> set (columns (st ! df))")
    case False
    with Cons.IH [OF Cons.prems, of ps] show ?thesis by simp
  next
    case True
    show ?thesis
    proof (cases "numeric_column (st ! df) column")
      case (Inl e)
      with True Cons.prems show ?thesis by simp
    next
      case (Inr vals)
      define new where
        "new = map float_cell (map (rescale (series_min vals) (series_max vals)) vals)"
      define st' where "st' = st[df_normalized := set_column (st ! df_normalized) column new]"
      have lv: "length new = length (rows (st ! df_normalized))"
        using numeric_column_length [OF Inr] Cons.prems(4) by (simp add: new_def)
      define ps' where "ps' = ps(column \<mapsto> (series_min vals, series_max vals))"
      have step: "normalize_loop (column # cols) df df_normalized st ps
          = normalize_loop cols df df_normalized st' ps'"
        using True Inr by (simp add: Let_def st'_def new_def ps'_def)
      have p: "df < length st'" "df_normalized < length st'"
        "st' ! df = st ! df"
        "st' ! df_normalized = set_column (st ! df_normalized) column new"
        using Cons.prems by (simp_all add: st'_def)
      have q: "length (rows (st' ! df_normalized)) = length (rows (st' ! df))"
        "columns (st' ! df_normalized) = columns (st' ! df)"
        using Cons.prems True lv
        by (simp_all add: p length_rows_set_column columns_set_column)
      have other: "\<And>c. c \<noteq> column \<Longrightarrow>
          get_column (st' ! df_normalized) c = get_column (st ! df_normalized) c"
        using lv by (simp add: p get_column_set_column_other)
      from Cons.IH [OF p(1) p(2) Cons.prems(3) q, of ps'] other
      show ?thesis
        unfolding step by (simp add: p(3))
    qed
  qed
qed







lemma fst_normalize_settings:
  "fst (normalize_settings st df) =
     fst (normalize_loop settings_columns df (length st) (st @ [st ! df]) Map.empty)"
  by (simp add: normalize_settings_def Let_def split: prod.splits sum.splits)

lemma snd_normalize_settings:
  "snd (normalize_settings st df) =
     (case snd (normalize_loop settings_columns df (length st) (st @ [st ! df]) Map.empty) of
        Inl e \<Rightarrow> Inl e
      | Inr norm_params \<Rightarrow> Inr (length st, norm_params))"
  by (simp add: normalize_settings_def Let_def split: prod.splits sum.splits)


text \<open>
  C10.  \<open>normalize_settings\<close> never changes a DataFrame that existed when it was
  called, its argument included, whether it returns or raises; the DataFrame it
  returns is a new one with the columns and the number of rows of the argument,
  and each of its columns other than iso, aperture, shutter_speed and focal_length
  equals the argument's column of that name.
\<close>

theorem normalize_settings_frame:
  assumes "df < length st"
  shows "length (fst (normalize_settings st df)) = Suc (length st)
    \<and> (\<forall>a. a < length st \<longrightarrow> fst (normalize_settings st df) ! a = st ! a)
    \<and> (\<forall>r params. snd (normalize_settings st df) = Inr (r, params) \<longrightarrow>
          r = length st
        \<and> columns (fst (normalize_settings st df) ! r) = columns (st ! df)
        \<and> length (rows (fst (normalize_settings st df) ! r)) = length (rows (st ! df))
        \<and> (\<forall>c. c \<notin> {''iso'', ''aperture'', ''shutter_speed'', ''focal_length''} \<longrightarrow>
              get_column (fst (normalize_settings st df) ! r) c = get_column (st ! df) c))"
proof -
  let ?st1 = "st @ [st ! df]"
  let ?loop = "normalize_loop settings_columns df (length st) ?st1 Map.empty"
  have a: "length st < length ?st1" "df < length ?st1" "df \<noteq> length st"
    "?st1 ! df = st ! df" "?st1 ! length st = st ! df"
    using assms by (simp_all add: nth_append)
  have frame: "length (fst ?loop) = length ?st1"
    "\<And>b. b \<noteq> length st \<Longrightarrow> fst ?loop ! b = ?st1 ! b"
    using normalize_loop_frame [OF a(1), of settings_columns df Map.empty] by simp_all
  have cols: "length (rows (fst ?loop ! length st)) = length (rows (st ! df))"
    "columns (fst ?loop ! length st) = columns (st ! df)"
    "\<And>c. c \<notin> set settings_columns \<Longrightarrow>
        get_column (fst ?loop ! length st) c = get_column (st ! df) c"
    using normalize_loop_columns [OF a(2) a(1) a(3), of settings_columns Map.empty]
    by (simp_all add: a(4,5))
  have 1: "length (fst (normalize_settings st df)) = Suc (length st)"
    by (simp add: fst_normalize_settings frame(1))
  have 2: "\<forall>a. a < length st \<longrightarrow> fst (normalize_settings st df) ! a = st ! a"
    by (simp add: fst_normalize_settings frame(2) nth_append)
  have 3: "\<forall>r params. snd (normalize_settings st df) = Inr (r, params) \<longrightarrow>
          r = length st
        \<and> columns (fst (normalize_settings st df) ! r) = columns (st ! df)
        \<and> length (rows (fst (normalize_settings st df) ! r)) = length (rows (st ! df))
        \<and> (\<forall>c. c \<notin> {''iso'', ''aperture'', ''shutter_speed'', ''focal_length''} \<longrightarrow>
              get_column (fst (normalize_settings st df) ! r) c = get_column (st ! df) c)"
  proof (intro allI impI)
    fix r params
    assume "snd (normalize_settings st df) = Inr (r, params)"
    then have r: "r = length st"
      by (auto simp: snd_normalize_settings split: sum.splits)
    show "r = length st
        \<and> columns (fst (normalize_settings st df) ! r) = columns (st ! df)
        \<and> length (rows (fst (normalize_settings st df) ! r)) = length (rows (st ! df))
        \<and> (\<forall>c. c \<notin> {''iso'', ''aperture'', ''shutter_speed'', ''focal_length''} \<longrightarrow>
              get_column (fst (normalize_settings st df) ! r) c = get_column (st ! df) c)"
      unfolding r fst_normalize_settings
      using cols by (simp add: settings_columns_def)
  qed
  from 1 2 3 show ?thesis by (intro conjI)
qed

lemma photo_frame_run:
  "snd (normalize_settings [photo_frame] 0) = Inr (1, [''iso'' \<mapsto> (Some 100, Some 400)])"
proof -
  have c: "get_column photo_frame ''iso'' = [NumC 100, NumC 400, NumC 200]"
    by (simp add: get_column_def photo_frame_def photo_row_def)
  have n: "numeric_column photo_frame ''iso'' = Inr [Some 100, Some 400, Some 200]"
    by (simp add: numeric_column_def c is_text_def cell_float_def)
  have m: "series_min [Some 100, Some 400, Some 200] = Some 100"
    "series_max [Some 100, Some 400, Some 200] = Some 400"
    by (simp_all add: series_min_def series_max_def List.map_filter_simps)
  show ?thesis
    by (simp add: normalize_settings_def settings_columns_def n m Let_def)
      (simp add: photo_frame_def)
qed

theorem normalize_settings_frame_witness:
  "fst (normalize_settings [photo_frame] 0) ! 0 = photo_frame
   \<and> snd (normalize_settings [photo_frame] 0) = Inr (1, [''iso'' \<mapsto> (Some 100, Some 400)])
   \<and> get_column (fst (normalize_settings [photo_frame] 0) ! 1) ''image_path''
       = [TextC ''a.jpg'', TextC ''b.jpg'', TextC ''c.jpg'']"
proof -
  have g: "get_column photo_frame ''image_path'' = [TextC ''a.jpg'', TextC ''b.jpg'', TextC ''c.jpg'']"
    by (simp add: get_column_def photo_frame_def photo_row_def)
  have l: "(0::nat) < length [photo_frame]" by simp
  note t = normalize_settings_frame [OF l]
  have "fst (normalize_settings [photo_frame] 0) ! 0 = [photo_frame] ! 0"
    using t [THEN conjunct2, THEN conjunct1] by simp
  moreover have "get_column (fst (normalize_settings [photo_frame] 0) ! 1) ''image_path''
       = get_column ([photo_frame] ! 0) ''image_path''"
    using t [THEN conjunct2, THEN conjunct2, rule_format, OF photo_frame_run] by simp
  ultimately show ?thesis using photo_frame_run g by simp
qed







end
